theory Spec2Isabelle
  imports Main
begin

section \<open>Data model of \<^verbatim>\<open>changes.go\<close>\<close>

text \<open>
  Byte slices are lists of 8-bit characters. A Go \<^verbatim>\<open>error\<close> value is either
  \<^verbatim>\<open>io.EOF\<close> or some other error, identified by its message.
\<close>

type_synonym byte = char

datatype error = EOF | Err string

text \<open>The line terminator handed to \<^verbatim>\<open>ReadBytes\<close>: the byte \<^verbatim>\<open>'\n'\<close>.\<close>

definition newline :: byte where
  "newline = CHR 0x0A"

text \<open>\<^verbatim>\<open>type Rev struct\<close>, \<^verbatim>\<open>type Change struct\<close>, \<^verbatim>\<open>type ChangesResponse struct\<close>.\<close>

record Rev =
  Rev :: string

record Change =
  Changes :: "Rev list"
  ID :: string
  Seq :: string

record ChangesResponse =
  LastSeq :: string
  Results :: "Change list"
  Pending :: int

text \<open>
  Pointers. The fields of \<^verbatim>\<open>ChangesQueryParameters\<close> are pointers to strings, booleans and
  integers; \<^verbatim>\<open>nil\<close> is \<open>None\<close>. The cells they point to live in a heap, a list of cells
  addressed by position, so that allocating a new variable appends a cell and leaves every
  existing cell where it is.
\<close>

type_synonym addr = nat

type_synonym ptr = "addr option"

datatype val = VString string | VBool bool | VInt int

type_synonym heap = "val list"

definition load :: "heap \<Rightarrow> addr \<Rightarrow> val option" where
  "load h a = (if a < length h then Some (h ! a) else None)"

definition alloc :: "heap \<Rightarrow> val \<Rightarrow> heap \<times> addr" where
  "alloc h v = (h @ [v], length h)"

record ChangesQueryParameters =
  DocIDs :: "string list"
  Conflicts :: ptr
  Descending :: ptr
  Feed :: ptr
  Filter :: ptr
  Heartbeat :: ptr
  IncludeDocs :: ptr
  Attachments :: ptr
  AttEncodingInfo :: ptr
  LastEventID :: ptr
  Limit :: ptr
  Since :: ptr
  Style :: ptr
  Timeout :: ptr
  View :: ptr

text \<open>A pointer of a Go program is \<^verbatim>\<open>nil\<close> or the address of a cell that exists.\<close>

definition valid_ptr :: "heap \<Rightarrow> ptr \<Rightarrow> bool" where
  "valid_ptr h p = (case p of None \<Rightarrow> True | Some a \<Rightarrow> a < length h)"

text \<open>
  The feed mode a parameter struct denotes in a heap: the string its \<^verbatim>\<open>Feed\<close> pointer
  points to, or none when the pointer is \<^verbatim>\<open>nil\<close>.
\<close>

definition feed_mode :: "heap \<Rightarrow> ChangesQueryParameters \<Rightarrow> string option" where
  "feed_mode h p =
     (case Feed p of
        None \<Rightarrow> None
      | Some a \<Rightarrow> (case load h a of Some (VString s) \<Rightarrow> Some s | _ \<Rightarrow> None))"

text \<open>
  An HTTP response body, as the stream reader sees it: the bytes it delivers, and the error
  its read reports once they are used up (\<^verbatim>\<open>io.EOF\<close> when the server closes the
  connection, any other error when the connection drops). A body that never reports an
  error keeps the loop of \<^verbatim>\<open>readStream\<close> running for ever and is outside this type.
\<close>

record body =
  content :: "byte list"
  fault :: error

record Response =
  Body :: body

section \<open>External collaborators\<close>

text \<open>
  The functions \<^verbatim>\<open>changes.go\<close> calls and does not define are parameters of the model:
  \<^verbatim>\<open>query.Values\<close> (which reads the struct through its pointers, hence the heap),
  \<^verbatim>\<open>url.Values.Encode\<close>, \<^verbatim>\<open>url.PathEscape\<close>, \<^verbatim>\<open>bytes.TrimSpace\<close>,
  \<^verbatim>\<open>json.Unmarshal\<close> into a fresh \<^verbatim>\<open>Change\<close>, and \<^verbatim>\<open>json.NewDecoder(body).Decode\<close> into a fresh
  \<^verbatim>\<open>ChangesResponse\<close> (which leaves a value in the struct also when it fails).
\<close>

type_synonym url_Values = "(string \<times> string list) list"

record extern =
  query_Values :: "heap \<Rightarrow> ChangesQueryParameters \<Rightarrow> error + url_Values"
  Encode :: "url_Values \<Rightarrow> string"
  PathEscape :: "string \<Rightarrow> string"
  TrimSpace :: "byte list \<Rightarrow> byte list"
  Unmarshal :: "byte list \<Rightarrow> error + Change"
  Decode :: "body \<Rightarrow> ChangesResponse \<times> error option"

text \<open>
  \<^verbatim>\<open>Client.Request(method, uri, nil, "")\<close> returns a response pointer and an error; both
  are what the client makes of the method and the URI. The receiver of \<^verbatim>\<open>Stream\<close> and
  \<^verbatim>\<open>Poll\<close> is a constructed service: its database and client are not \<^verbatim>\<open>nil\<close>.
\<close>

record Client =
  Request :: "string \<Rightarrow> string \<Rightarrow> Response option \<times> error option"

record Database =
  Name :: string
  Client :: Client

section \<open>The stream reader\<close>

text \<open>
  \<^verbatim>\<open>bufio.Reader.ReadBytes(delim)\<close>: the bytes up to and including the first \<open>delim\<close>, with
  no error; when the input ends before a \<open>delim\<close>, the bytes read so far together with
  the error of the read. The second component is the reader after the call.
\<close>

definition ReadBytes :: "byte \<Rightarrow> body \<Rightarrow> (byte list \<times> error option) \<times> body" where
  "ReadBytes delim b =
     (case dropWhile (\<lambda>x. x \<noteq> delim) (content b) of
        [] \<Rightarrow> ((content b, Some (fault b)), b\<lparr>content := []\<rparr>)
      | d # rest \<Rightarrow>
          ((takeWhile (\<lambda>x. x \<noteq> delim) (content b) @ [d], None), b\<lparr>content := rest\<rparr>))"

text \<open>
  What \<^verbatim>\<open>readStream\<close> does to the outside, in the order it does it: a send on the
  results channel, the close of that channel, the close of the response body.
\<close>

datatype event = Send Change | CloseChan | CloseBody

text \<open>A Go function either returns or panics (here: on a \<^verbatim>\<open>nil\<close> pointer dereference).\<close>

datatype 'a outcome = Panic | Finished 'a

text \<open>
  The \<^verbatim>\<open>for\<close> loop of \<^verbatim>\<open>readStream\<close>. The state is the reader and the events sent so far;
  the loop ends at the first read that reports an error, whatever bytes come with it.
\<close>

function readLoop :: "extern \<Rightarrow> body \<Rightarrow> event list \<Rightarrow> event list" where
  "readLoop ext reader sent =
     (case ReadBytes newline reader of
        ((line, Some err), reader') \<Rightarrow> sent
      | ((line, None), reader') \<Rightarrow>
          (let line = TrimSpace ext line in
           if length line \<le> 0 then readLoop ext reader' sent
           else (case Unmarshal ext line of
                   Inl err \<Rightarrow> readLoop ext reader' sent
                 | Inr result \<Rightarrow>
                     if Seq result \<noteq> [] then readLoop ext reader' (sent @ [Send result])
                     else readLoop ext reader' sent)))"
  by pat_completeness auto
termination
proof -
  have shrinks: "length (content reader') < length (content reader)"
    if "((line, None), reader') = ReadBytes newline reader" for reader reader' line
  proof -
    have "length (dropWhile (\<lambda>x. x \<noteq> newline) (content reader)) \<le> length (content reader)"
      by (rule length_dropWhile_le)
    with that show ?thesis
      by (auto simp: ReadBytes_def split: list.splits)
  qed
  show ?thesis
    by (relation "measure (\<lambda>(ext, reader, sent). length (content reader))")
       (auto intro: shrinks)
qed

declare readLoop.simps [simp del]

text \<open>
  \<^verbatim>\<open>readStream\<close>. The two \<^verbatim>\<open>defer\<close> statements push onto the stack of deferred calls, first
  the close of the body, then the close of the channel; evaluating \<^verbatim>\<open>r.Body\<close> for the
  first of them panics when \<open>r\<close> is \<^verbatim>\<open>nil\<close>. When the loop is over the deferred calls run
  from the top of the stack.
\<close>

definition readStream :: "extern \<Rightarrow> Response option \<Rightarrow> event list outcome" where
  "readStream ext r =
     (case r of
        None \<Rightarrow> Panic
      | Some resp \<Rightarrow>
          (let deferred = [CloseBody];
               deferred = CloseChan # deferred;
               sent = readLoop ext (Body resp) []
           in Finished (sent @ deferred)))"

text \<open>The changes a run of \<^verbatim>\<open>readStream\<close> sent on the channel, in order.\<close>

fun sends :: "event list \<Rightarrow> Change list" where
  "sends [] = []"
| "sends (Send c # es) = c # sends es"
| "sends (CloseChan # es) = sends es"
| "sends (CloseBody # es) = sends es"

text \<open>
  Whether the first occurrence of \<open>a\<close> in a run is followed, later in the run, by \<open>b\<close>.
\<close>

definition precedes :: "event \<Rightarrow> event \<Rightarrow> event list \<Rightarrow> bool" where
  "precedes a b tr = (b \<in> set (drop 1 (dropWhile (\<lambda>e. e \<noteq> a) tr)))"

text \<open>The events of a run; a run that panicked has none.\<close>

fun run :: "'a list outcome \<Rightarrow> 'a list" where
  "run Panic = []"
| "run (Finished tr) = tr"

section \<open>The stream reader, as the specification words it\<close>

text \<open>
  The newline-terminated lines of an input, each with its terminator: the input is cut
  after every newline, and what follows the last newline is not a line.
\<close>

fun lines_from :: "byte list \<Rightarrow> byte list \<Rightarrow> byte list list" where
  "lines_from cur [] = []"
| "lines_from cur (x # xs) =
     (if x = newline then (cur @ [x]) # lines_from [] xs else lines_from (cur @ [x]) xs)"

definition terminated_lines :: "byte list \<Rightarrow> byte list list" where
  "terminated_lines d = lines_from [] d"

text \<open>
  A line is delivered when it is non-empty after trimming, decodes as a \<^verbatim>\<open>Change\<close>, and the
  change carries a non-empty sequence token; what is delivered is the decoded change.
\<close>

definition deliverable :: "extern \<Rightarrow> byte list \<Rightarrow> bool" where
  "deliverable ext l =
     (TrimSpace ext l \<noteq> [] \<and>
      (case Unmarshal ext (TrimSpace ext l) of Inl e \<Rightarrow> False | Inr c \<Rightarrow> Seq c \<noteq> []))"

definition decoded :: "extern \<Rightarrow> byte list \<Rightarrow> Change" where
  "decoded ext l = projr (Unmarshal ext (TrimSpace ext l))"

definition spec_events :: "extern \<Rightarrow> byte list \<Rightarrow> Change list" where
  "spec_events ext d = map (decoded ext) (filter (deliverable ext) (terminated_lines d))"

section \<open>\<^verbatim>\<open>Stream\<close> and \<^verbatim>\<open>Poll\<close>\<close>

text \<open>\<^verbatim>\<open>type Changes struct\<close>: the receiver of both methods.\<close>

record Changes =
  Database :: Database

text \<open>
  What a call of \<^verbatim>\<open>Stream\<close> or \<^verbatim>\<open>Poll\<close> did and returned: the struct it handed to
  \<^verbatim>\<open>query.Values\<close>, the method and URI of the request it issued (none when it returned
  before), the events it caused itself, and the pair it returned.
\<close>

record 'a call =
  encoded :: ChangesQueryParameters
  issued :: "(string \<times> string) option"
  effects :: "event list"
  ret :: 'a

text \<open>
  \<^verbatim>\<open>Stream\<close>. The local variable \<^verbatim>\<open>continuous\<close> is a new cell of the heap, and the \<^verbatim>\<open>Feed\<close>
  field of the parameter (the callee's copy of the struct) is set to its address. The error
  of the request is assigned and not looked at. The channel returned is described by the run
  of the goroutine \<^verbatim>\<open>readStream\<close> that feeds it; \<open>None\<close> is the \<^verbatim>\<open>nil\<close> channel. The heap
  after the call is the second component.
\<close>

definition Stream ::
  "extern \<Rightarrow> Changes \<Rightarrow> heap \<Rightarrow> ChangesQueryParameters \<Rightarrow>
   (event list outcome option \<times> error option) call \<times> heap" where
  "Stream ext c h params =
     (let (h, continuous) = alloc h (VString ''continuous'');
          params = params\<lparr>Feed := Some continuous\<rparr>
      in case query_Values ext h params of
           Inl err \<Rightarrow>
             (\<lparr>encoded = params, issued = None, effects = [], ret = (None, Some err)\<rparr>, h)
         | Inr q \<Rightarrow>
             (let uri = PathEscape ext (Name (Database c)) @ ''/_changes?'' @ Encode ext q;
                  (res, err) = Request (Client (Database c)) ''GET'' uri;
                  resultsChan = readStream ext res
              in (\<lparr>encoded = params, issued = Some (''GET'', uri), effects = [],
                   ret = (Some resultsChan, None)\<rparr>, h)))"

text \<open>
  \<^verbatim>\<open>Poll\<close>. It reads the heap and writes nothing to it. The error of the request is
  assigned and overwritten by the error of the decoding; \<^verbatim>\<open>defer r.Body.Close()\<close> panics
  when the response is \<^verbatim>\<open>nil\<close>, and otherwise closes the body when \<^verbatim>\<open>Poll\<close> returns.
\<close>

definition Poll ::
  "extern \<Rightarrow> Changes \<Rightarrow> heap \<Rightarrow> ChangesQueryParameters \<Rightarrow>
   (ChangesResponse option \<times> error option) outcome call" where
  "Poll ext c h params =
     (let params =
            (if Feed params \<noteq> None \<and> load h (the (Feed params)) = Some (VString ''continuous'')
             then params\<lparr>Feed := None\<rparr> else params)
      in case query_Values ext h params of
           Inl err \<Rightarrow>
             \<lparr>encoded = params, issued = None, effects = [], ret = Finished (None, Some err)\<rparr>
         | Inr q \<Rightarrow>
             (let uri = PathEscape ext (Name (Database c)) @ ''/_changes?'' @ Encode ext q;
                  (r, err) = Request (Client (Database c)) ''GET'' uri
              in case r of
                   None \<Rightarrow>
                     \<lparr>encoded = params, issued = Some (''GET'', uri), effects = [], ret = Panic\<rparr>
                 | Some resp \<Rightarrow>
                     (let deferred = [CloseBody];
                          (response, err) = Decode ext (Body resp)
                      in \<lparr>encoded = params, issued = Some (''GET'', uri), effects = deferred,
                          ret = Finished (Some response, err)\<rparr>)))"

text \<open>
  The caller's side of a call. The caller holds the parameter struct in a variable of its
  own; Go passes the struct by value, so the callee works on a copy and the variable is not
  among the things the call can write. What the caller has afterwards is its variable and
  the heap the call left.
\<close>

record caller =
  holds :: ChangesQueryParameters
  mem :: heap

definition call_Stream ::
  "extern \<Rightarrow> Changes \<Rightarrow> caller \<Rightarrow>
   (event list outcome option \<times> error option) call \<times> caller" where
  "call_Stream ext c st =
     (let (r, h) = Stream ext c (mem st) (holds st) in (r, st\<lparr>mem := h\<rparr>))"

definition call_Poll ::
  "extern \<Rightarrow> Changes \<Rightarrow> caller \<Rightarrow>
   (ChangesResponse option \<times> error option) outcome call \<times> caller" where
  "call_Poll ext c st = (Poll ext c (mem st) (holds st), st)"

section \<open>Sample collaborators\<close>

text \<open>
  Concrete collaborators, to run the model on inputs: an encoder that writes the feed mode
  only, a trimmer of ASCII white space, and decoders that know three documents.
\<close>

definition sample_Values :: "heap \<Rightarrow> ChangesQueryParameters \<Rightarrow> error + url_Values" where
  "sample_Values h p =
     Inr (case feed_mode h p of None \<Rightarrow> [] | Some m \<Rightarrow> [(''feed'', [m])])"

fun sample_Encode :: "url_Values \<Rightarrow> string" where
  "sample_Encode [] = []"
| "sample_Encode ((k, vs) # kvs) =
     k @ ''='' @ concat vs @ (if kvs = [] then [] else ''&'' @ sample_Encode kvs)"

definition ascii_space :: "byte \<Rightarrow> bool" where
  "ascii_space x = (x \<in> set [CHR 0x09, CHR 0x0A, CHR 0x0B, CHR 0x0C, CHR 0x0D, CHR 0x20])"

definition sample_TrimSpace :: "byte list \<Rightarrow> byte list" where
  "sample_TrimSpace l = rev (dropWhile ascii_space (rev (dropWhile ascii_space l)))"

definition doc1_line :: "byte list" where
  \<open>doc1_line = ''{"seq":"1-abc","id":"doc1","changes":[{"rev":"1-x"}]}''\<close>

definition doc1 :: Change where
  "doc1 = \<lparr>Changes = [\<lparr>Rev = ''1-x''\<rparr>], ID = ''doc1'', Seq = ''1-abc''\<rparr>"

definition ignore_line :: "byte list" where
  \<open>ignore_line = ''{"seq":"","id":"ignore"}''\<close>

definition ignore_doc :: Change where
  "ignore_doc = \<lparr>Changes = [], ID = ''ignore'', Seq = []\<rparr>"

definition sample_Unmarshal :: "byte list \<Rightarrow> error + Change" where
  "sample_Unmarshal l =
     (if l = doc1_line then Inr doc1
      else if l = ignore_line then Inr ignore_doc
      else Inl (Err ''invalid character''))"

definition poll_line :: "byte list" where
  \<open>poll_line = ''{"last_seq":"1-abc","results":[],"pending":0}''\<close>

definition sample_Decode :: "body \<Rightarrow> ChangesResponse \<times> error option" where
  "sample_Decode b =
     (if content b = poll_line then (\<lparr>LastSeq = ''1-abc'', Results = [], Pending = 0\<rparr>, None)
      else (\<lparr>LastSeq = [], Results = [], Pending = 0\<rparr>, Some (Err ''invalid character'')))"

definition sample_extern :: extern where
  "sample_extern =
     \<lparr>query_Values = sample_Values, Encode = sample_Encode, PathEscape = (\<lambda>s. s),
      TrimSpace = sample_TrimSpace, Unmarshal = sample_Unmarshal, Decode = sample_Decode\<rparr>"

text \<open>A parameter struct with every field unset.\<close>

definition no_params :: ChangesQueryParameters where
  "no_params =
     \<lparr>DocIDs = [], Conflicts = None, Descending = None, Feed = None, Filter = None,
      Heartbeat = None, IncludeDocs = None, Attachments = None, AttEncodingInfo = None,
      LastEventID = None, Limit = None, Since = None, Style = None, Timeout = None,
      View = None\<rparr>"

text \<open>
  Three services on a database \<^verbatim>\<open>db\<close>: one whose request fails and yields no response, one
  whose request yields a response together with an error, one whose request succeeds.
\<close>

definition refused_service :: Changes where
  "refused_service =
     \<lparr>Database = \<lparr>Name = ''db'',
        Client = \<lparr>Request = (\<lambda>m u. (None, Some (Err ''connection refused'')))\<rparr>\<rparr>\<rparr>"

definition redirect_service :: Changes where
  "redirect_service =
     \<lparr>Database = \<lparr>Name = ''db'',
        Client = \<lparr>Request = (\<lambda>m u. (Some \<lparr>Body = \<lparr>content = poll_line, fault = EOF\<rparr>\<rparr>,
                                      Some (Err ''stopped after redirect'')))\<rparr>\<rparr>\<rparr>"

definition sample_feed :: body where
  "sample_feed = \<lparr>content = doc1_line @ [newline] @ ignore_line @ [newline], fault = EOF\<rparr>"

definition feed_service :: Changes where
  "feed_service =
     \<lparr>Database = \<lparr>Name = ''db'',
        Client = \<lparr>Request = (\<lambda>m u. (Some \<lparr>Body = sample_feed\<rparr>, None))\<rparr>\<rparr>\<rparr>"

text \<open>
  A service that answers by the URI of the request: the sample feed to a request with feed
  mode \<^verbatim>\<open>continuous\<close>, one batch of changes to a request with no feed mode or with
  \<^verbatim>\<open>longpoll\<close>, and no response to any other request.
\<close>

definition strict_service :: Changes where
  "strict_service =
     \<lparr>Database = \<lparr>Name = ''db'',
        Client = \<lparr>Request = (\<lambda>m u.
          if m = ''GET'' \<and> u = ''db/_changes?feed=continuous''
          then (Some \<lparr>Body = sample_feed\<rparr>, None)
          else if m = ''GET'' \<and> (u = ''db/_changes?'' \<or> u = ''db/_changes?feed=longpoll'')
          then (Some \<lparr>Body = \<lparr>content = poll_line, fault = EOF\<rparr>\<rparr>, None)
          else (None, Some (Err ''bad request'')))\<rparr>\<rparr>\<rparr>"

section \<open>Lines and the loop\<close>

text \<open>
  An input without a newline has no line; the first line of any other input is what comes
  before its first newline, with that newline.
\<close>

lemma lines_from_no_newline:
  "newline \<notin> set d \<Longrightarrow> lines_from cur d = []"
  by (induction d arbitrary: cur) auto

lemma lines_from_newline:
  "newline \<notin> set pre \<Longrightarrow>
   lines_from cur (pre @ newline # rest) = (cur @ pre @ [newline]) # lines_from [] rest"
  by (induction pre arbitrary: cur) auto

text \<open>
  The lines are what their name says: each ends in a newline and has no other, and together
  they are the input up to its last newline.
\<close>

lemma lines_from_shape:
  assumes "newline \<notin> set cur"
  shows "(\<forall>l \<in> set (lines_from cur d). \<exists>b. l = b @ [newline] \<and> newline \<notin> set b) \<and>
         (\<exists>rest. cur @ d = concat (lines_from cur d) @ rest \<and> newline \<notin> set rest)"
  using assms
proof (induction d arbitrary: cur)
  case Nil
  then show ?case by simp
next
  case (Cons x xs)
  show ?case
  proof (cases "x = newline")
    case True
    from Cons.IH [of "[]"] obtain rest where
      lines: "\<forall>l \<in> set (lines_from [] xs). \<exists>b. l = b @ [newline] \<and> newline \<notin> set b"
      and rest: "xs = concat (lines_from [] xs) @ rest" "newline \<notin> set rest"
      by auto
    from rest have "cur @ x # xs = concat (lines_from cur (x # xs)) @ rest"
      using True by simp
    with lines rest(2) Cons.prems True show ?thesis
      by auto
  next
    case False
    with Cons.prems have "newline \<notin> set (cur @ [x])"
      by simp
    from Cons.IH [OF this] False show ?thesis
      by simp
  qed
qed

lemma terminated_lines_shape:
  "(\<forall>l \<in> set (terminated_lines d). \<exists>b. l = b @ [newline] \<and> newline \<notin> set b) \<and>
   (\<exists>rest. d = concat (terminated_lines d) @ rest \<and> newline \<notin> set rest)"
  using lines_from_shape [of "[]" d] by (simp add: terminated_lines_def)

lemma dropWhile_newline_Nil:
  "dropWhile (\<lambda>x. x \<noteq> newline) d = [] \<Longrightarrow> newline \<notin> set d"
  by (induction d) (auto split: if_splits)

lemma dropWhile_newline_Cons:
  assumes "dropWhile (\<lambda>x. x \<noteq> newline) d = x # rest"
  shows "x = newline"
    and "d = takeWhile (\<lambda>x. x \<noteq> newline) d @ newline # rest"
    and "newline \<notin> set (takeWhile (\<lambda>x. x \<noteq> newline) d)"
proof -
  show x: "x = newline"
    using assms hd_dropWhile [of "\<lambda>x. x \<noteq> newline" d] by simp
  have "d = takeWhile (\<lambda>x. x \<noteq> newline) d @ dropWhile (\<lambda>x. x \<noteq> newline) d"
    by simp
  with assms x show "d = takeWhile (\<lambda>x. x \<noteq> newline) d @ newline # rest"
    by simp
  show "newline \<notin> set (takeWhile (\<lambda>x. x \<noteq> newline) d)"
    by (auto dest: set_takeWhileD)
qed

lemma readLoop_spec:
  "readLoop ext b sent = sent @ map Send (spec_events ext (content b))"
proof (induction ext b sent rule: readLoop.induct)
  case (1 ext reader sent)
  show ?case
  proof (cases "dropWhile (\<lambda>x. x \<noteq> newline) (content reader)")
    case Nil
    have "terminated_lines (content reader) = []"
      unfolding terminated_lines_def
      by (rule lines_from_no_newline) (rule dropWhile_newline_Nil [OF Nil])
    then show ?thesis
      by (subst readLoop.simps) (simp add: ReadBytes_def spec_events_def Nil)
  next
    case (Cons d rest)
    let ?line = "takeWhile (\<lambda>x. x \<noteq> newline) (content reader) @ [d]"
    let ?r = "reader\<lparr>content := rest\<rparr>"
    note nl = dropWhile_newline_Cons [OF Cons]
    have rb: "ReadBytes newline reader = ((?line, None), ?r)"
      using Cons by (simp add: ReadBytes_def)
    have "terminated_lines (content reader)
        = lines_from [] (takeWhile (\<lambda>x. x \<noteq> newline) (content reader) @ newline # rest)"
      unfolding terminated_lines_def using nl(2) by simp
    also have "\<dots> = ?line # terminated_lines rest"
      unfolding terminated_lines_def using nl(1,3) by (simp add: lines_from_newline)
    finally have tl: "terminated_lines (content reader) = ?line # terminated_lines rest" .
    note ih = 1 [OF rb [symmetric] refl refl refl]
    define t where "t = TrimSpace ext ?line"
    have step: "readLoop ext reader sent =
       (if length t \<le> 0 then readLoop ext ?r sent
        else (case Unmarshal ext t of
                Inl err \<Rightarrow> readLoop ext ?r sent
              | Inr result \<Rightarrow>
                  if Seq result \<noteq> [] then readLoop ext ?r (sent @ [Send result])
                  else readLoop ext ?r sent))"
      by (subst readLoop.simps) (simp add: rb t_def Let_def)
    have spec: "spec_events ext (content reader) =
       (if deliverable ext ?line then decoded ext ?line # spec_events ext rest
        else spec_events ext rest)"
      by (simp add: spec_events_def tl)
    consider (empty) "t = []"
      | (bad) e where "t \<noteq> []" "Unmarshal ext t = Inl e"
      | (noseq) c where "t \<noteq> []" "Unmarshal ext t = Inr c" "Seq c = []"
      | (ok) c where "t \<noteq> []" "Unmarshal ext t = Inr c" "Seq c \<noteq> []"
      by (cases "Unmarshal ext t") auto
    then show ?thesis
    proof cases
      case empty
      with ih(1) show ?thesis
        by (simp add: step spec deliverable_def t_def)
    next
      case bad
      with ih(2) [of e] show ?thesis
        by (simp add: step spec deliverable_def t_def)
    next
      case noseq
      with ih(4) [of c] show ?thesis
        by (simp add: step spec deliverable_def t_def)
    next
      case ok
      with ih(3) [of c] show ?thesis
        by (simp add: step spec deliverable_def decoded_def t_def)
    qed
  qed
qed

lemma readStream_run:
  "readStream ext (Some r) =
     Finished (map Send (spec_events ext (content (Body r))) @ [CloseChan, CloseBody])"
  by (simp add: readStream_def readLoop_spec)

lemma sends_append: "sends (xs @ ys) = sends xs @ sends ys"
  by (induction xs rule: sends.induct) simp_all

lemma sends_Send: "sends (map Send cs) = cs"
  by (induction cs) simp_all

lemma count_Send [simp]:
  "count_list (map Send cs) CloseChan = 0" "count_list (map Send cs) CloseBody = 0"
  by (induction cs) simp_all

text \<open>The sample collaborators on the sample lines.\<close>

lemma sample_lines:
  "terminated_lines (doc1_line @ newline # ignore_line @ [newline])
     = [doc1_line @ [newline], ignore_line @ [newline]]"
  by (simp add: terminated_lines_def doc1_line_def ignore_line_def newline_def)

lemma sample_trim:
  "sample_TrimSpace (doc1_line @ [newline]) = doc1_line"
  "sample_TrimSpace (ignore_line @ [newline]) = ignore_line"
  by (simp_all add: sample_TrimSpace_def doc1_line_def ignore_line_def newline_def ascii_space_def)

lemma terminated_lines_tail:
  assumes "newline \<notin> set tail"
  shows "terminated_lines tail = []"
    and "terminated_lines (pre @ newline # tail) = terminated_lines (pre @ [newline])"
proof -
  show "terminated_lines tail = []"
    using assms by (simp add: terminated_lines_def lines_from_no_newline)
  have "lines_from cur (pre @ newline # tail) = lines_from cur (pre @ [newline])" for cur
    using assms by (induction pre arbitrary: cur) (simp_all add: lines_from_no_newline)
  then show "terminated_lines (pre @ newline # tail) = terminated_lines (pre @ [newline])"
    by (simp add: terminated_lines_def)
qed

lemma sample_lines_differ: "ignore_line \<noteq> doc1_line" "doc1_line \<noteq> []" "ignore_line \<noteq> []"
  by (simp_all add: doc1_line_def ignore_line_def)

lemma sample_decode:
  "deliverable sample_extern (doc1_line @ [newline])"
  "\<not> deliverable sample_extern (ignore_line @ [newline])"
  "decoded sample_extern (doc1_line @ [newline]) = doc1"
  by (simp_all add: deliverable_def decoded_def sample_extern_def sample_trim sample_Unmarshal_def
        sample_lines_differ doc1_def ignore_doc_def)

lemma sample_events:
  "spec_events sample_extern (doc1_line @ newline # ignore_line @ [newline]) = [doc1]"
  by (simp add: spec_events_def sample_lines sample_decode)

lemma doc1_line_no_newline: "newline \<notin> set doc1_line"
  by (simp add: doc1_line_def newline_def)

lemma sample_events_one:
  "spec_events sample_extern (doc1_line @ [newline]) = [doc1]"
proof -
  have "terminated_lines (doc1_line @ [newline]) = [doc1_line @ [newline]]"
    using lines_from_newline [OF doc1_line_no_newline, of "[]" "[]"]
    by (simp add: terminated_lines_def)
  then show ?thesis
    by (simp add: spec_events_def sample_decode)
qed

section \<open>What the stream reader delivers\<close>

text \<open>
  C1. For every input, the changes \<^verbatim>\<open>readStream\<close> sends on the channel are, in input order,
  the decoded changes of exactly those newline-terminated lines that are non-empty after
  trimming, decode as a \<^verbatim>\<open>Change\<close> and carry a non-empty sequence token. Every other line
  yields no event, and the run finishes without a panic.
\<close>

theorem readStream_delivers:
  "\<exists>tr. readStream ext (Some r) = Finished tr \<and>
        sends tr = spec_events ext (content (Body r))"
  by (simp add: readStream_run sends_append sends_Send)

theorem readStream_delivers_witness:
  "\<exists>tr. readStream sample_extern (Some \<lparr>Body = sample_feed\<rparr>) = Finished tr \<and> sends tr = [doc1]"
  using readStream_delivers [of sample_extern "\<lparr>Body = sample_feed\<rparr>"]
  by (simp add: sample_feed_def sample_events)

text \<open>
  C10. A final line that no newline terminates is never delivered, also when it is valid JSON
  with a non-empty sequence token: an input without a newline yields no event, and what
  follows the last newline of an input changes nothing.
\<close>

theorem unterminated_final_line_dropped:
  assumes "newline \<notin> set tail"
  shows "readStream ext (Some \<lparr>Body = \<lparr>content = tail, fault = e\<rparr>\<rparr>)
           = Finished [CloseChan, CloseBody] \<and>
         readStream ext (Some \<lparr>Body = \<lparr>content = pre @ newline # tail, fault = e\<rparr>\<rparr>)
           = readStream ext (Some \<lparr>Body = \<lparr>content = pre @ [newline], fault = e\<rparr>\<rparr>)"
  using terminated_lines_tail(1) [OF assms] terminated_lines_tail(2) [OF assms, of pre]
  by (simp add: readStream_run spec_events_def)

theorem unterminated_final_line_dropped_witness:
  "newline \<notin> set doc1_line \<and>
   sample_Unmarshal doc1_line = Inr doc1 \<and> Seq doc1 \<noteq> [] \<and>
   readStream sample_extern (Some \<lparr>Body = \<lparr>content = doc1_line, fault = EOF\<rparr>\<rparr>)
     = Finished [CloseChan, CloseBody] \<and>
   readStream sample_extern (Some \<lparr>Body = \<lparr>content = doc1_line @ newline # doc1_line, fault = EOF\<rparr>\<rparr>)
     = Finished [Send doc1, CloseChan, CloseBody]"
proof -
  note dropped =
    unterminated_final_line_dropped [OF doc1_line_no_newline, of sample_extern EOF doc1_line]
  have terminated:
    "readStream sample_extern (Some \<lparr>Body = \<lparr>content = doc1_line @ [newline], fault = EOF\<rparr>\<rparr>)
       = Finished [Send doc1, CloseChan, CloseBody]"
    by (simp add: readStream_run sample_events_one)
  have "sample_Unmarshal doc1_line = Inr doc1" "Seq doc1 \<noteq> []"
    by (simp_all add: sample_Unmarshal_def doc1_def)
  with dropped terminated doc1_line_no_newline show ?thesis
    by simp
qed

section \<open>How the stream reader ends\<close>

text \<open>
  C3, as claimed: on termination the response body is closed and then the channel. On the
  empty input the close of the body is not followed by the close of the channel: the close
  of the channel comes first.
\<close>

theorem close_order_counterexample:
  "\<not> precedes CloseBody CloseChan
       (run (readStream sample_extern (Some \<lparr>Body = \<lparr>content = [], fault = EOF\<rparr>\<rparr>))) \<and>
   precedes CloseChan CloseBody
       (run (readStream sample_extern (Some \<lparr>Body = \<lparr>content = [], fault = EOF\<rparr>\<rparr>)))"
  by (simp add: readStream_run spec_events_def terminated_lines_def precedes_def)

text \<open>
  C3, amended. Whatever error ends the input, the run finishes, and it ends with the close of
  the channel followed by the close of the body, after sends only; the run is the same for
  every error, so the error reaches the consumer in no way.
\<close>

theorem readStream_closes_channel_then_body:
  "\<exists>cs. readStream ext (Some \<lparr>Body = \<lparr>content = d, fault = e\<rparr>\<rparr>)
            = Finished (map Send cs @ [CloseChan, CloseBody]) \<and>
        readStream ext (Some \<lparr>Body = \<lparr>content = d, fault = e'\<rparr>\<rparr>)
            = readStream ext (Some \<lparr>Body = \<lparr>content = d, fault = e\<rparr>\<rparr>)"
  by (intro exI [of _ "spec_events ext d"]) (simp add: readStream_run)

theorem readStream_closes_channel_then_body_witness:
  "\<exists>cs. readStream sample_extern (Some \<lparr>Body = sample_feed\<rparr>)
            = Finished (map Send cs @ [CloseChan, CloseBody]) \<and>
        readStream sample_extern (Some \<lparr>Body = sample_feed\<lparr>fault := Err ''connection reset''\<rparr>\<rparr>)
            = readStream sample_extern (Some \<lparr>Body = sample_feed\<rparr>)"
  using readStream_closes_channel_then_body
    [of sample_extern "doc1_line @ [newline] @ ignore_line @ [newline]" EOF "Err ''connection reset''"]
  by (simp add: sample_feed_def)

text \<open>
  C4. For every input that reaches its end, however many events came before, the channel is
  closed exactly once and the body is closed exactly once.
\<close>

theorem readStream_closes_once:
  "\<exists>tr. readStream ext (Some r) = Finished tr \<and>
        count_list tr CloseChan = 1 \<and> count_list tr CloseBody = 1"
  by (simp add: readStream_run)

theorem readStream_closes_once_witness:
  "\<exists>tr. readStream sample_extern (Some \<lparr>Body = sample_feed\<rparr>) = Finished tr \<and>
        count_list tr CloseChan = 1 \<and> count_list tr CloseBody = 1"
  using readStream_closes_once [of sample_extern "\<lparr>Body = sample_feed\<rparr>"] by simp

section \<open>The query of \<^verbatim>\<open>Stream\<close> and \<^verbatim>\<open>Poll\<close>\<close>

text \<open>Both methods with their local bindings resolved.\<close>

lemma feed_mode_alloc:
  "feed_mode (h @ [VString s]) (p\<lparr>Feed := Some (length h)\<rparr>) = Some s"
  by (simp add: feed_mode_def load_def)

lemma Stream_unfold:
  "Stream ext c h p =
     (case query_Values ext (h @ [VString ''continuous'']) (p\<lparr>Feed := Some (length h)\<rparr>) of
        Inl err \<Rightarrow>
          (\<lparr>encoded = p\<lparr>Feed := Some (length h)\<rparr>, issued = None, effects = [],
            ret = (None, Some err)\<rparr>, h @ [VString ''continuous''])
      | Inr q \<Rightarrow>
          (\<lparr>encoded = p\<lparr>Feed := Some (length h)\<rparr>,
            issued = Some (''GET'', PathEscape ext (Name (Database c)) @ ''/_changes?'' @ Encode ext q),
            effects = [],
            ret = (Some (readStream ext (fst (Request (Client (Database c)) ''GET''
                     (PathEscape ext (Name (Database c)) @ ''/_changes?'' @ Encode ext q)))), None)\<rparr>,
           h @ [VString ''continuous'']))"
  by (simp add: Stream_def alloc_def Let_def split: sum.splits prod.splits)

lemma Poll_strip:
  "(Feed p \<noteq> None \<and> load h (the (Feed p)) = Some (VString ''continuous''))
     = (feed_mode h p = Some ''continuous'')"
  by (auto simp: feed_mode_def split: option.splits val.splits)

lemma Poll_unfold:
  "Poll ext c h p =
     (let p' = (if feed_mode h p = Some ''continuous'' then p\<lparr>Feed := None\<rparr> else p)
      in case query_Values ext h p' of
           Inl err \<Rightarrow> \<lparr>encoded = p', issued = None, effects = [], ret = Finished (None, Some err)\<rparr>
         | Inr q \<Rightarrow>
             (case fst (Request (Client (Database c)) ''GET''
                     (PathEscape ext (Name (Database c)) @ ''/_changes?'' @ Encode ext q)) of
                None \<Rightarrow>
                  \<lparr>encoded = p',
                   issued = Some (''GET'', PathEscape ext (Name (Database c)) @ ''/_changes?'' @ Encode ext q),
                   effects = [], ret = Panic\<rparr>
              | Some resp \<Rightarrow>
                  \<lparr>encoded = p',
                   issued = Some (''GET'', PathEscape ext (Name (Database c)) @ ''/_changes?'' @ Encode ext q),
                   effects = [CloseBody],
                   ret = Finished (Some (fst (Decode ext (Body resp))), snd (Decode ext (Body resp)))\<rparr>))"
  unfolding Poll_def Poll_strip
  by (simp add: Let_def split: sum.splits prod.splits option.splits)

lemma feed_mode_grow:
  "valid_ptr h (Feed p) \<Longrightarrow> feed_mode (h @ extra) p = feed_mode h p"
  by (auto simp: valid_ptr_def feed_mode_def load_def nth_append split: option.splits)

lemma Stream_heap: "snd (Stream ext c h p) = h @ [VString ''continuous'']"
  by (simp add: Stream_unfold split: sum.splits)

lemma call_Stream_snd:
  "snd (call_Stream ext c st) = st\<lparr>mem := mem st @ [VString ''continuous'']\<rparr>"
  by (simp add: call_Stream_def split_beta Stream_heap)

lemma call_Stream_fst:
  "fst (call_Stream ext c st) = fst (Stream ext c (mem st) (holds st))"
  by (simp add: call_Stream_def split_beta)

text \<open>
  C5. Whatever feed mode the caller supplied, none included, the request \<^verbatim>\<open>Stream\<close> issues
  carries feed mode \<^verbatim>\<open>continuous\<close>: the struct it hands to the query encoder has feed mode
  \<^verbatim>\<open>continuous\<close> and the caller's other fields, the request is a GET on the \<^verbatim>\<open>_changes\<close>
  endpoint with the encoding of that struct as its query string, the channel returned is fed
  from the response the client gave to that very request, and the caller's feed mode has no
  influence on the call.
\<close>

theorem Stream_forces_continuous:
  "feed_mode (snd (Stream ext c h p)) (encoded (fst (Stream ext c h p))) = Some ''continuous'' \<and>
   encoded (fst (Stream ext c h p)) = p\<lparr>Feed := Feed (encoded (fst (Stream ext c h p)))\<rparr> \<and>
   issued (fst (Stream ext c h p)) =
     (case query_Values ext (snd (Stream ext c h p)) (encoded (fst (Stream ext c h p))) of
        Inl err \<Rightarrow> None
      | Inr q \<Rightarrow> Some (''GET'', PathEscape ext (Name (Database c)) @ ''/_changes?'' @ Encode ext q)) \<and>
   Stream ext c h (p\<lparr>Feed := f\<rparr>) = Stream ext c h p \<and>
   feed_mode (h @ [VString ''continuous'']) (p\<lparr>Feed := Some (length h)\<rparr>) = Some ''continuous'' \<and>
   ret (fst (Stream ext c h p)) =
     (case query_Values ext (h @ [VString ''continuous'']) (p\<lparr>Feed := Some (length h)\<rparr>) of
        Inl err \<Rightarrow> (None, Some err)
      | Inr q \<Rightarrow>
          (Some (readStream ext
             (fst (Request (Client (Database c)) ''GET''
                (PathEscape ext (Name (Database c)) @ ''/_changes?'' @ Encode ext q)))), None))"
  by (simp add: Stream_unfold feed_mode_alloc split: sum.splits)

theorem Stream_forces_continuous_witness:
  "feed_mode [VString ''longpoll''] (no_params\<lparr>Feed := Some 0\<rparr>) = Some ''longpoll'' \<and>
   issued (fst (Stream sample_extern strict_service [VString ''longpoll''] (no_params\<lparr>Feed := Some 0\<rparr>)))
     = Some (''GET'', ''db/_changes?feed=continuous'') \<and>
   ret (fst (Stream sample_extern strict_service [VString ''longpoll''] (no_params\<lparr>Feed := Some 0\<rparr>)))
     = (Some (Finished [Send doc1, CloseChan, CloseBody]), None) \<and>
   issued (fst (Stream sample_extern strict_service [] no_params))
     = Some (''GET'', ''db/_changes?feed=continuous'') \<and>
   ret (fst (Stream sample_extern strict_service [] no_params))
     = (Some (Finished [Send doc1, CloseChan, CloseBody]), None)"
proof -
  have fed: "readStream sample_extern (Some \<lparr>Body = sample_feed\<rparr>)
               = Finished [Send doc1, CloseChan, CloseBody]"
    by (simp add: readStream_run sample_feed_def sample_events)
  have mode: "feed_mode [VString ''longpoll''] (no_params\<lparr>Feed := Some 0\<rparr>) = Some ''longpoll''"
    by (simp add: feed_mode_def load_def)
  have q1: "query_Values sample_extern ([VString ''longpoll''] @ [VString ''continuous''])
              (no_params\<lparr>Feed := Some 0, Feed := Some (length [VString ''longpoll''])\<rparr>)
            = Inr [(''feed'', [''continuous''])]"
    by (simp add: sample_extern_def sample_Values_def feed_mode_def load_def)
  have q0: "query_Values sample_extern ([] @ [VString ''continuous'']) (no_params\<lparr>Feed := Some (length ([]::heap))\<rparr>)
            = Inr [(''feed'', [''continuous''])]"
    by (simp add: sample_extern_def sample_Values_def feed_mode_def load_def)
  have uri: "PathEscape sample_extern (Name (Database strict_service)) @ ''/_changes?''
               @ Encode sample_extern [(''feed'', [''continuous''])] = ''db/_changes?feed=continuous''"
    by (simp add: sample_extern_def strict_service_def)
  have answer: "fst (Request (Client (Database strict_service)) ''GET'' ''db/_changes?feed=continuous'')
                  = Some \<lparr>Body = sample_feed\<rparr>"
    by (simp add: strict_service_def)
  note one = Stream_forces_continuous
    [of sample_extern strict_service "[VString ''longpoll'']" "no_params\<lparr>Feed := Some 0\<rparr>" None]
  note two = Stream_forces_continuous [of sample_extern strict_service "[]" no_params None]
  have i1: "issued (fst (Stream sample_extern strict_service [VString ''longpoll''] (no_params\<lparr>Feed := Some 0\<rparr>)))
     = Some (''GET'', ''db/_changes?feed=continuous'')"
    by (simp add: Stream_unfold sample_extern_def sample_Values_def strict_service_def
          feed_mode_def load_def no_params_def)
  have i0: "issued (fst (Stream sample_extern strict_service [] no_params))
     = Some (''GET'', ''db/_changes?feed=continuous'')"
    by (simp add: Stream_unfold sample_extern_def sample_Values_def strict_service_def
          feed_mode_def load_def no_params_def)
  from one have "ret (fst (Stream sample_extern strict_service [VString ''longpoll''] (no_params\<lparr>Feed := Some 0\<rparr>)))
     = (case query_Values sample_extern ([VString ''longpoll''] @ [VString ''continuous''])
              (no_params\<lparr>Feed := Some 0, Feed := Some (length [VString ''longpoll''])\<rparr>) of
        Inl err \<Rightarrow> (None, Some err)
      | Inr q \<Rightarrow>
          (Some (readStream sample_extern
             (fst (Request (Client (Database strict_service)) ''GET''
                (PathEscape sample_extern (Name (Database strict_service)) @ ''/_changes?'' @ Encode sample_extern q)))), None))"
    by (elim conjE) assumption
  then have r1: "ret (fst (Stream sample_extern strict_service [VString ''longpoll''] (no_params\<lparr>Feed := Some 0\<rparr>)))
     = (Some (Finished [Send doc1, CloseChan, CloseBody]), None)"
    by (simp only: q1 sum.case uri answer fed)
  from two have "ret (fst (Stream sample_extern strict_service [] no_params))
     = (case query_Values sample_extern ([] @ [VString ''continuous'']) (no_params\<lparr>Feed := Some (length ([]::heap))\<rparr>) of
        Inl err \<Rightarrow> (None, Some err)
      | Inr q \<Rightarrow>
          (Some (readStream sample_extern
             (fst (Request (Client (Database strict_service)) ''GET''
                (PathEscape sample_extern (Name (Database strict_service)) @ ''/_changes?'' @ Encode sample_extern q)))), None))"
    by (elim conjE) assumption
  then have r0: "ret (fst (Stream sample_extern strict_service [] no_params))
     = (Some (Finished [Send doc1, CloseChan, CloseBody]), None)"
    by (simp only: q0 sum.case uri answer fed)
  from mode i1 r1 i0 r0 show ?thesis
    by blast
qed

text \<open>
  C6. When the feed mode of the parameters is \<^verbatim>\<open>continuous\<close>, \<^verbatim>\<open>Poll\<close> unsets it before it
  issues the request, so the struct it encodes never has feed mode \<^verbatim>\<open>continuous\<close>;
  parameters with any other feed mode are encoded as they are. The request is a GET on the
  \<^verbatim>\<open>_changes\<close> endpoint with the encoding of that struct as its query string, and what
  \<^verbatim>\<open>Poll\<close> returns comes from the response the client gave to that very request.
\<close>

theorem Poll_strips_continuous:
  "encoded (Poll ext c h p) = (if feed_mode h p = Some ''continuous'' then p\<lparr>Feed := None\<rparr> else p) \<and>
   feed_mode h (encoded (Poll ext c h p)) \<noteq> Some ''continuous'' \<and>
   issued (Poll ext c h p) =
     (case query_Values ext h (encoded (Poll ext c h p)) of
        Inl err \<Rightarrow> None
      | Inr q \<Rightarrow> Some (''GET'', PathEscape ext (Name (Database c)) @ ''/_changes?'' @ Encode ext q)) \<and>
   feed_mode h (if feed_mode h p = Some ''continuous'' then p\<lparr>Feed := None\<rparr> else p)
     \<noteq> Some ''continuous'' \<and>
   ret (Poll ext c h p) =
     (case query_Values ext h (if feed_mode h p = Some ''continuous'' then p\<lparr>Feed := None\<rparr> else p) of
        Inl err \<Rightarrow> Finished (None, Some err)
      | Inr q \<Rightarrow>
          (case fst (Request (Client (Database c)) ''GET''
                  (PathEscape ext (Name (Database c)) @ ''/_changes?'' @ Encode ext q)) of
             None \<Rightarrow> Panic
           | Some resp \<Rightarrow>
               Finished (Some (fst (Decode ext (Body resp))), snd (Decode ext (Body resp)))))"
proof -
  define p' where "p' = (if feed_mode h p = Some ''continuous'' then p\<lparr>Feed := None\<rparr> else p)"
  have mode: "feed_mode h p' \<noteq> Some ''continuous''"
    by (simp add: p'_def feed_mode_def)
  have poll: "Poll ext c h p =
     (case query_Values ext h p' of
        Inl err \<Rightarrow> \<lparr>encoded = p', issued = None, effects = [], ret = Finished (None, Some err)\<rparr>
      | Inr q \<Rightarrow>
          (case fst (Request (Client (Database c)) ''GET''
                  (PathEscape ext (Name (Database c)) @ ''/_changes?'' @ Encode ext q)) of
             None \<Rightarrow>
               \<lparr>encoded = p',
                issued = Some (''GET'', PathEscape ext (Name (Database c)) @ ''/_changes?'' @ Encode ext q),
                effects = [], ret = Panic\<rparr>
           | Some resp \<Rightarrow>
               \<lparr>encoded = p',
                issued = Some (''GET'', PathEscape ext (Name (Database c)) @ ''/_changes?'' @ Encode ext q),
                effects = [CloseBody],
                ret = Finished (Some (fst (Decode ext (Body resp))), snd (Decode ext (Body resp)))\<rparr>))"
    unfolding p'_def by (simp only: Poll_unfold Let_def)
  have enc: "encoded (Poll ext c h p) = p'"
    unfolding poll by (simp split: sum.split option.split)
  have iss: "issued (Poll ext c h p) =
     (case query_Values ext h p' of
        Inl err \<Rightarrow> None
      | Inr q \<Rightarrow> Some (''GET'', PathEscape ext (Name (Database c)) @ ''/_changes?'' @ Encode ext q))"
    unfolding poll by (simp split: sum.split option.split)
  have res: "ret (Poll ext c h p) =
     (case query_Values ext h p' of
        Inl err \<Rightarrow> Finished (None, Some err)
      | Inr q \<Rightarrow>
          (case fst (Request (Client (Database c)) ''GET''
                  (PathEscape ext (Name (Database c)) @ ''/_changes?'' @ Encode ext q)) of
             None \<Rightarrow> Panic
           | Some resp \<Rightarrow>
               Finished (Some (fst (Decode ext (Body resp))), snd (Decode ext (Body resp)))))"
    unfolding poll by (simp split: sum.split option.split)
  from enc mode iss res show ?thesis
    unfolding p'_def by simp
qed

theorem Poll_strips_continuous_witness:
  "feed_mode [VString ''continuous''] (no_params\<lparr>Feed := Some 0\<rparr>) = Some ''continuous'' \<and>
   encoded (Poll sample_extern strict_service [VString ''continuous''] (no_params\<lparr>Feed := Some 0\<rparr>))
     = no_params \<and>
   issued (Poll sample_extern strict_service [VString ''continuous''] (no_params\<lparr>Feed := Some 0\<rparr>))
     = Some (''GET'', ''db/_changes?'') \<and>
   ret (Poll sample_extern strict_service [VString ''continuous''] (no_params\<lparr>Feed := Some 0\<rparr>))
     = Finished (Some \<lparr>LastSeq = ''1-abc'', Results = [], Pending = 0\<rparr>, None) \<and>
   encoded (Poll sample_extern strict_service [VString ''longpoll''] (no_params\<lparr>Feed := Some 0\<rparr>))
     = no_params\<lparr>Feed := Some 0\<rparr> \<and>
   issued (Poll sample_extern strict_service [VString ''longpoll''] (no_params\<lparr>Feed := Some 0\<rparr>))
     = Some (''GET'', ''db/_changes?feed=longpoll'') \<and>
   ret (Poll sample_extern strict_service [VString ''longpoll''] (no_params\<lparr>Feed := Some 0\<rparr>))
     = Finished (Some \<lparr>LastSeq = ''1-abc'', Results = [], Pending = 0\<rparr>, None)"
  using Poll_strips_continuous [of sample_extern strict_service "[VString ''continuous'']" "no_params\<lparr>Feed := Some 0\<rparr>"]
    Poll_strips_continuous [of sample_extern strict_service "[VString ''longpoll'']" "no_params\<lparr>Feed := Some 0\<rparr>"]
  by (simp add: sample_extern_def sample_Values_def sample_Decode_def strict_service_def
        feed_mode_def load_def no_params_def)

section \<open>The caller's parameter struct\<close>

text \<open>
  C7, as claimed: after the call the feed mode of the struct the caller passed in has been
  changed, to \<^verbatim>\<open>continuous\<close> by \<^verbatim>\<open>Stream\<close> and to unset by \<^verbatim>\<open>Poll\<close>. A caller who passes
  \<^verbatim>\<open>longpoll\<close> to \<^verbatim>\<open>Stream\<close> does not hold \<^verbatim>\<open>continuous\<close> afterwards, and a caller who passes
  \<^verbatim>\<open>continuous\<close> to \<^verbatim>\<open>Poll\<close> does not hold an unset feed mode afterwards.
\<close>

theorem caller_feed_mode_counterexample:
  "feed_mode
     (mem (snd (call_Stream sample_extern feed_service
        \<lparr>holds = no_params\<lparr>Feed := Some 0\<rparr>, mem = [VString ''longpoll'']\<rparr>)))
     (holds (snd (call_Stream sample_extern feed_service
        \<lparr>holds = no_params\<lparr>Feed := Some 0\<rparr>, mem = [VString ''longpoll'']\<rparr>)))
     \<noteq> Some ''continuous'' \<and>
   feed_mode
     (mem (snd (call_Poll sample_extern redirect_service
        \<lparr>holds = no_params\<lparr>Feed := Some 0\<rparr>, mem = [VString ''continuous'']\<rparr>)))
     (holds (snd (call_Poll sample_extern redirect_service
        \<lparr>holds = no_params\<lparr>Feed := Some 0\<rparr>, mem = [VString ''continuous'']\<rparr>)))
     \<noteq> None"
  by (simp add: call_Stream_snd call_Poll_def feed_mode_def load_def no_params_def)

text \<open>
  C7, amended. \<^verbatim>\<open>Stream\<close> and \<^verbatim>\<open>Poll\<close> overwrite the feed mode in their own copy of the
  struct and write nothing through its pointers: after the call the caller's struct is the
  one it passed, every cell that existed before holds what it held, and so the feed mode of
  the caller's struct is what it was.
\<close>

theorem calls_keep_caller_struct:
  assumes "valid_ptr (mem st) (Feed (holds st))"
  shows "holds (snd (call_Stream ext c st)) = holds st \<and>
         take (length (mem st)) (mem (snd (call_Stream ext c st))) = mem st \<and>
         feed_mode (mem (snd (call_Stream ext c st))) (holds (snd (call_Stream ext c st)))
           = feed_mode (mem st) (holds st) \<and>
         snd (call_Poll ext c st) = st"
  using assms by (simp add: call_Stream_snd call_Poll_def feed_mode_grow)

theorem calls_keep_caller_struct_witness:
  "valid_ptr [VString ''longpoll''] (Some 0) \<and>
   holds (snd (call_Stream sample_extern feed_service
        \<lparr>holds = no_params\<lparr>Feed := Some 0\<rparr>, mem = [VString ''longpoll'']\<rparr>))
     = no_params\<lparr>Feed := Some 0\<rparr> \<and>
   feed_mode
     (mem (snd (call_Stream sample_extern feed_service
        \<lparr>holds = no_params\<lparr>Feed := Some 0\<rparr>, mem = [VString ''longpoll'']\<rparr>)))
     (holds (snd (call_Stream sample_extern feed_service
        \<lparr>holds = no_params\<lparr>Feed := Some 0\<rparr>, mem = [VString ''longpoll'']\<rparr>)))
     = Some ''longpoll'' \<and>
   encoded (fst (call_Stream sample_extern feed_service
        \<lparr>holds = no_params\<lparr>Feed := Some 0\<rparr>, mem = [VString ''longpoll'']\<rparr>))
     = no_params\<lparr>Feed := Some 1\<rparr>"
proof -
  let ?st = "\<lparr>holds = no_params\<lparr>Feed := Some 0\<rparr>, mem = [VString ''longpoll'']\<rparr>"
  let ?st' = "snd (call_Stream sample_extern feed_service ?st)"
  have valid: "valid_ptr (mem ?st) (Feed (holds ?st))"
    by (simp add: valid_ptr_def)
  note kept = calls_keep_caller_struct [OF valid, of sample_extern feed_service]
  from kept have "holds ?st' = holds ?st"
    by blast
  then have same: "holds ?st' = no_params\<lparr>Feed := Some 0\<rparr>"
    by simp
  from kept have "feed_mode (mem ?st') (holds ?st') = feed_mode (mem ?st) (holds ?st)"
    by blast
  also have "\<dots> = Some ''longpoll''"
    by (simp add: feed_mode_def load_def)
  finally have mode: "feed_mode (mem ?st') (holds ?st') = Some ''longpoll''" .
  have enc: "encoded (fst (call_Stream sample_extern feed_service ?st))
     = no_params\<lparr>Feed := Some 1\<rparr>"
    by (simp add: call_Stream_fst Stream_unfold no_params_def split: sum.splits)
  from valid have "valid_ptr [VString ''longpoll''] (Some 0)"
    by simp
  with same mode enc show ?thesis
    by blast
qed

section \<open>The error of the request\<close>

text \<open>
  An error of the query encoder is returned by \<^verbatim>\<open>Stream\<close> at once, with the \<^verbatim>\<open>nil\<close> channel
  and before any request; once the encoder succeeded, \<^verbatim>\<open>Stream\<close> returns a channel and no
  error, whatever the request returned.
\<close>

lemma Stream_encoding_failure:
  assumes "query_Values ext (h @ [VString ''continuous'']) (p\<lparr>Feed := Some (length h)\<rparr>) = Inl err"
  shows "ret (fst (Stream ext c h p)) = (None, Some err)"
    and "issued (fst (Stream ext c h p)) = None"
  using assms by (simp_all add: Stream_unfold)

lemma Stream_request_error_dropped:
  assumes "query_Values ext (h @ [VString ''continuous'']) (p\<lparr>Feed := Some (length h)\<rparr>) = Inr q"
  shows "\<exists>ch. ret (fst (Stream ext c h p)) = (Some ch, None)"
  using assms by (simp add: Stream_unfold)

text \<open>
  C2. If the HTTP request fails before streaming begins, the error is returned to the caller
  and no channel is created. On a request that is refused, with no response, \<^verbatim>\<open>Stream\<close>
  returns a channel and the \<^verbatim>\<open>nil\<close> error, and the goroutine behind the channel panics.
\<close>

theorem Stream_request_failure_unreported:
  "issued (fst (Stream sample_extern refused_service [] no_params))
     = Some (''GET'', ''db/_changes?feed=continuous'') \<and>
   Request (Client (Database refused_service)) ''GET'' ''db/_changes?feed=continuous''
     = (None, Some (Err ''connection refused'')) \<and>
   ret (fst (Stream sample_extern refused_service [] no_params)) = (Some Panic, None)"
  by (simp add: Stream_unfold sample_extern_def sample_Values_def refused_service_def
        feed_mode_def load_def no_params_def readStream_def)

text \<open>
  Whenever the request yields a response, whatever error comes with it, \<^verbatim>\<open>Poll\<close> decodes the
  body, closes it once, and returns the decoded value with the error of the decoding: the
  error of the request is neither looked at nor returned.
\<close>

lemma Poll_discards_request_error:
  assumes "query_Values ext h (if feed_mode h p = Some ''continuous'' then p\<lparr>Feed := None\<rparr> else p)
             = Inr q"
    and "Request (Client (Database c)) ''GET'' (PathEscape ext (Name (Database c)) @ ''/_changes?'' @ Encode ext q)
             = (Some resp, e)"
  shows "ret (Poll ext c h p)
           = Finished (Some (fst (Decode ext (Body resp))), snd (Decode ext (Body resp))) \<and>
         effects (Poll ext c h p) = [CloseBody]"
  using assms by (simp add: Poll_unfold)

lemma Poll_discards_request_error_sample:
  "Request (Client (Database redirect_service)) ''GET'' ''db/_changes?''
     = (Some \<lparr>Body = \<lparr>content = poll_line, fault = EOF\<rparr>\<rparr>, Some (Err ''stopped after redirect'')) \<and>
   ret (Poll sample_extern redirect_service [] no_params)
     = Finished (Some \<lparr>LastSeq = ''1-abc'', Results = [], Pending = 0\<rparr>, None) \<and>
   effects (Poll sample_extern redirect_service [] no_params) = [CloseBody]"
  by (simp add: Poll_unfold sample_extern_def sample_Values_def sample_Decode_def
        redirect_service_def feed_mode_def no_params_def)

text \<open>
  C9. For every call \<^verbatim>\<open>Poll\<close> discards the error of the request, goes on to close the response
  body and to decode it, and returns the error of the decoding. On a request that is refused,
  with no response beside its error, \<^verbatim>\<open>Poll\<close> issues the request and panics: it decodes
  nothing, closes nothing and returns nothing.
\<close>

theorem Poll_request_failure_panics:
  "Request (Client (Database refused_service)) ''GET'' ''db/_changes?''
     = (None, Some (Err ''connection refused'')) \<and>
   issued (Poll sample_extern refused_service [] no_params) = Some (''GET'', ''db/_changes?'') \<and>
   ret (Poll sample_extern refused_service [] no_params) = Panic \<and>
   effects (Poll sample_extern refused_service [] no_params) = []"
  by (simp add: Poll_unfold sample_extern_def sample_Values_def refused_service_def
        feed_mode_def load_def no_params_def)

end
